theory Spec2Isabelle
  imports Complex_Main "HOL-Library.AList" "HOL-Library.Char_ord" "HOL-Library.List_Lexorder"
begin

section \<open>Strings\<close>

text \<open>
  Application identifiers, patterns, categories and date keys are Python \<open>str\<close> values.
  They are modelled as \<open>string\<close> (a list of 8-bit characters); \<open>str.lower()\<close> is
  modelled on the ASCII letters, which is what every keyword of the classifier uses.
\<close>

definition lower_char :: "char \<Rightarrow> char" where
  "lower_char c =
     (case map_of (zip ''ABCDEFGHIJKLMNOPQRSTUVWXYZ'' ''abcdefghijklmnopqrstuvwxyz'') c of
        Some l \<Rightarrow> l
      | None \<Rightarrow> c)"

definition lower :: "string \<Rightarrow> string" where
  "lower s = map lower_char s"

text \<open>\<open>starts_with p s\<close>: the string \<open>s\<close> begins with \<open>p\<close>.\<close>

fun starts_with :: "string \<Rightarrow> string \<Rightarrow> bool" where
  "starts_with [] s = True"
| "starts_with (p # ps) [] = False"
| "starts_with (p # ps) (c # cs) = (p = c \<and> starts_with ps cs)"

text \<open>Python's \<open>p in s\<close> on strings: \<open>p\<close> occurs in \<open>s\<close> as a contiguous substring.\<close>

fun str_in :: "string \<Rightarrow> string \<Rightarrow> bool" where
  "str_in p [] = (p = [])"
| "str_in p (c # cs) = (starts_with p (c # cs) \<or> str_in p cs)"

text \<open>\<open>any(x in s for x in keywords)\<close>.\<close>

definition any_in :: "string list \<Rightarrow> string \<Rightarrow> bool" where
  "any_in keywords s = list_ex (\<lambda>x. str_in x s) keywords"

section \<open>Configuration\<close>

text \<open>
  The configuration document of \<open>load_config\<close>, restricted to the keys the tracking engine
  reads. A key that is missing from the document reads as its \<open>config.get\<close> default
  (an empty table or list), so each field is always present here. The goal table and the
  custom-rule table are Python dicts whose iteration order is insertion order: association
  lists.
\<close>

record config =
  goals :: "(string \<times> real) list"
  custom_categories :: "(string \<times> string) list"
  excluded_apps :: "string list"
  focus_mode_blocked :: "string list"
  productive_categories :: "string list"

section \<open>Classifier: \<open>TimeTracker.categorize_app\<close>\<close>

text \<open>The keyword tables of \<open>categorize_app\<close>, in the order of the source.\<close>

definition coding_keywords :: "string list" where
  "coding_keywords =
    [''vscode'', ''visual studio code'', ''pycharm'', ''intellij'', ''webstorm'',
     ''phpstorm'', ''goland'', ''rider'', ''clion'', ''datagrip'', ''rubymine'',
     ''appcode'', ''eclipse'', ''netbeans'', ''android studio'', ''xcode'', ''sublime'',
     ''atom'', ''brackets'', ''notepad++'', ''vim'', ''emacs'', ''nano'', ''gedit'',
     ''code.exe'', ''code - insiders'', ''jupyter'', ''spyder'', ''rstudio'', ''matlab'',
     ''octave'', ''postman'', ''insomnia'', ''swagger'', ''terminal'', ''iterm'',
     ''cmd.exe'', ''powershell'', ''wsl'', ''bash'', ''zsh'', ''windows terminal'',
     ''hyper'', ''alacritty'', ''kitty'', ''terminator'', ''putty'', ''winscp'',
     ''filezilla'', ''gitkraken'', ''sourcetree'', ''github desktop'', ''tower'',
     ''smartgit'', ''tortoisegit'', ''git gui'', ''dbeaver'', ''mysql workbench'',
     ''pgadmin'', ''sequel pro'', ''tableplus'', ''mongodb compass'', ''redis'',
     ''robo 3t'', ''docker'', ''kubernetes'', ''vagrant'', ''virtualbox'', ''vmware'',
     ''wireshark'', ''fiddler'', ''charles proxy'']"

definition browser_keywords :: "string list" where
  "browser_keywords =
    [''chrome'', ''firefox'', ''safari'', ''edge'', ''brave'', ''opera'', ''vivaldi'',
     ''arc'', ''chromium'', ''iexplore'', ''internet explorer'']"

definition browser_dev_sites :: "string list" where
  "browser_dev_sites =
    [''github'', ''gitlab'', ''bitbucket'', ''stackoverflow'', ''stack overflow'',
     ''leetcode'', ''hackerrank'', ''codepen'', ''codesandbox'', ''repl.it'', ''jsfiddle'',
     ''glitch'', ''stackblitz'', ''playcode'', ''codeanywhere'', ''mdn'', ''w3schools'',
     ''devdocs'', ''docs.python'', ''docs.microsoft'', ''developer.mozilla'',
     ''documentation'', ''api reference'', ''tutorial'', ''udemy'', ''coursera'', ''edx'',
     ''pluralsight'', ''skillshare'', ''freecodecamp'', ''khan academy'', ''codecademy'',
     ''udacity'', ''egghead'', ''frontend masters'', ''laracasts'', ''treehouse'',
     ''lynda'', ''datacamp'', ''educative'', ''vercel'', ''netlify'', ''heroku'',
     ''railway'', ''render'', ''fly.io'', ''aws console'', ''azure portal'',
     ''google cloud'', ''digitalocean'', ''cloudflare'', ''mongodb atlas'', ''supabase'',
     ''planetscale'', ''sentry'', ''datadog'', ''new relic'', ''grafana'', ''prometheus'']"

definition browser_social_sites :: "string list" where
  "browser_social_sites =
    [''facebook'', ''twitter'', ''instagram'', ''tiktok'', ''snapchat'', ''reddit'',
     ''pinterest'', ''tumblr'', ''linkedin'', ''mastodon'', ''threads'', ''bluesky'',
     ''whatsapp web'', ''telegram web'']"

definition browser_entertainment_sites :: "string list" where
  "browser_entertainment_sites =
    [''youtube'', ''netflix'', ''twitch'', ''hulu'', ''disney'', ''prime video'',
     ''spotify'', ''soundcloud'', ''apple music'', ''pandora'', ''tidal'', ''crunchyroll'',
     ''funimation'', ''hbo'', ''peacock'', ''paramount'']"

definition browser_news_sites :: "string list" where
  "browser_news_sites =
    [''news'', ''bbc'', ''cnn'', ''nytimes'', ''guardian'', ''reuters'', ''medium'',
     ''substack'', ''forbes'', ''techcrunch'', ''hacker news'', ''ycombinator'',
     ''wikipedia'', ''wikihow'']"

definition browser_shopping_sites :: "string list" where
  "browser_shopping_sites =
    [''amazon'', ''ebay'', ''etsy'', ''aliexpress'', ''walmart'', ''target'', ''shop'',
     ''store'', ''cart'', ''checkout'']"

definition browser_productivity_sites :: "string list" where
  "browser_productivity_sites =
    [''gmail'', ''outlook'', ''calendar'', ''google docs'', ''google sheets'',
     ''google drive'', ''dropbox'', ''notion'', ''todoist'', ''trello'', ''asana'',
     ''jira'', ''monday.com'', ''clickup'', ''linear'', ''airtable'', ''coda'', ''miro'',
     ''figma'', ''figjam'', ''whimsical'', ''lucidchart'', ''canva - edit'',
     ''excalidraw'', ''obsidian publish'']"

definition communication_keywords :: "string list" where
  "communication_keywords =
    [''slack'', ''discord'', ''teams'', ''microsoft teams'', ''zoom'', ''skype'',
     ''telegram'', ''whatsapp'', ''signal'', ''element'', ''matrix'', ''messenger'',
     ''wechat'', ''line'', ''viber'', ''groupme'', ''rocketchat'', ''mattermost'',
     ''zulip'', ''gitter'', ''chanty'', ''flock'', ''thunderbird'', ''outlook'', ''mail'',
     ''spark'', ''mailspring'', ''mailbird'', ''em client'', ''postbox'', ''claws mail'',
     ''webex'', ''gotomeeting'', ''bluejeans'', ''jitsi'', ''meet'', ''facetime'',
     ''google meet'', ''whereby'', ''around'', ''mmhmm'', ''discord - voice'', ''hangouts'']"

definition productivity_keywords :: "string list" where
  "productivity_keywords =
    [''word'', ''winword'', ''excel'', ''powerpoint'', ''onenote'', ''access'',
     ''publisher'', ''outlook'', ''microsoft 365'', ''office'', ''teams - calendar'',
     ''google docs'', ''google sheets'', ''google slides'', ''google drive'',
     ''google calendar'', ''google keep'', ''pages'', ''numbers'', ''keynote'',
     ''reminders'', ''libreoffice'', ''openoffice'', ''wps office'', ''calligra'',
     ''onlyoffice'', ''notion'', ''obsidian'', ''evernote'', ''onenote'', ''simplenote'',
     ''bear'', ''roam'', ''logseq'', ''joplin'', ''standard notes'', ''remnote'',
     ''typora'', ''mark text'', ''notable'', ''craft'', ''amplenote'', ''mem'',
     ''reflect'', ''tana'', ''capacities'', ''anytype'', ''acrobat'', ''pdf'', ''foxit'',
     ''preview'', ''sumatra'', ''pdf-xchange'', ''trello'', ''asana'', ''monday'',
     ''clickup'', ''basecamp'', ''notion calendar'', ''jira'', ''confluence'', ''linear'',
     ''height'', ''shortcut'', ''pivotal tracker'', ''youtrack'', ''airtable'',
     ''smartsheet'', ''wrike'', ''teamwork'', ''todoist'', ''things'', ''any.do'',
     ''microsoft to do'', ''ticktick'', ''omnifocus'', ''taskwarrior'', ''2do'',
     ''remember the milk'', ''airtable'', ''coda'', ''excel'', ''notion database'',
     ''fibery'', ''toggl'', ''rescuetime'', ''timely'', ''clockify'', ''harvest'',
     ''miro'', ''mural'', ''figjam'', ''whimsical'', ''lucidchart'', ''draw.io'',
     ''excalidraw'', ''tldraw'']"

definition design_keywords :: "string list" where
  "design_keywords =
    [''photoshop'', ''illustrator'', ''indesign'', ''lightroom'', ''acrobat'', ''gimp'',
     ''inkscape'', ''krita'', ''affinity photo'', ''affinity designer'', ''sketch'',
     ''figma'', ''adobe xd'', ''invision'', ''framer'', ''pixelmator'', ''paint.net'',
     ''paintshop'', ''corel draw'', ''canva'', ''penpot'', ''lunacy'', ''photopea'',
     ''fotor'', ''pixlr'', ''premiere'', ''after effects'', ''davinci resolve'',
     ''final cut'', ''imovie'', ''filmora'', ''camtasia'', ''shotcut'', ''kdenlive'',
     ''vegas'', ''avid'', ''blender'', ''olive'', ''openshot'', ''maya'', ''cinema 4d'',
     ''zbrush'', ''houdini'', ''3ds max'', ''unity'', ''unreal'', ''godot'',
     ''substance painter'', ''marmoset'', ''audacity'', ''logic pro'', ''ableton'',
     ''fl studio'', ''reaper'', ''pro tools'', ''garage band'', ''cubase'', ''studio one'',
     ''ardour'', ''lmms'', ''caustic'', ''penpot'', ''figma'', ''sketch'', ''axure'',
     ''balsamiq'', ''mockplus'', ''principle'', ''protopie'', ''flinto'', ''origami studio'']"

definition entertainment_keywords :: "string list" where
  "entertainment_keywords =
    [''spotify'', ''apple music'', ''itunes'', ''music'', ''vlc'', ''windows media'',
     ''quicktime'', ''netflix'', ''youtube'', ''twitch'', ''hulu'', ''disney+'', ''plex'',
     ''kodi'', ''jellyfin'', ''emby'', ''amazon prime video'', ''hbo max'', ''paramount+'',
     ''peacock'', ''apple tv'', ''crunchyroll'', ''steam'', ''epic games'',
     ''epicgameslauncher'', ''gog galaxy'', ''origin'', ''uplay'', ''battle.net'',
     ''battlenet'', ''blizzard'', ''riot client'', ''riotclientservices'', ''xbox'',
     ''playstation'', ''ea app'', ''rockstar games launcher'', ''bethesda launcher'',
     ''itch.io'', ''playnite'', ''minecraft'', ''fortnite'', ''valorant'',
     ''league of legends'', ''leagueoflegends'', ''dota'', ''dota2'', ''counter-strike'',
     ''csgo'', ''cs2'', ''overwatch'', ''apex legends'', ''apexlegends'',
     ''rocket league'', ''roblox'', ''among us'', ''fall guys'', ''wow'',
     ''world of warcraft'', ''destiny'', ''call of duty'', ''gta'', ''grand theft auto'',
     ''red dead'', ''elden ring'', ''baldurs gate'', ''cyberpunk'', ''witcher'',
     ''skyrim'', ''fallout'', ''halo'', ''warzone'', ''game'', ''.exe - '', ''soundcloud'',
     ''pandora'', ''tidal'', ''deezer'', ''youtube music'', ''foobar2000'', ''winamp'',
     ''clementine'', ''rhythmbox'']"

definition social_keywords :: "string list" where
  "social_keywords =
    [''facebook'', ''twitter'', ''instagram'', ''tiktok'', ''snapchat'', ''reddit'',
     ''pinterest'', ''linkedin'', ''mastodon'', ''threads'']"

definition education_keywords :: "string list" where
  "education_keywords =
    [''anki'', ''quizlet'', ''duolingo'', ''rosetta stone'', ''mathematica'', ''maple'',
     ''geogebra'', ''desmos'', ''moodle'', ''canvas'', ''blackboard'', ''schoology'',
     ''zoom'', ''google classroom'']"

definition utility_keywords :: "string list" where
  "utility_keywords =
    [''calculator'', ''notepad'', ''textedit'', ''finder'', ''explorer'', ''settings'',
     ''control panel'', ''system preferences'', ''task manager'', ''activity monitor'',
     ''resource monitor'', ''7-zip'', ''winrar'', ''winzip'', ''archive utility'',
     ''snipping tool'', ''screenshot'', ''greenshot'', ''lightshot'']"

definition finance_keywords :: "string list" where
  "finance_keywords =
    [''quickbooks'', ''quicken'', ''mint'', ''ynab'', ''personal capital'', ''coinbase'',
     ''robinhood'', ''webull'', ''etrade'', ''fidelity'', ''paypal'', ''venmo'',
     ''cash app'', ''crypto'']"

definition reading_keywords :: "string list" where
  "reading_keywords =
    [''kindle'', ''apple books'', ''calibre'', ''goodreads'', ''pocket'', ''instapaper'',
     ''readwise'', ''reader'']"

text \<open>
  The loop over \<open>custom_categories.items()\<close>: the first rule whose lower-cased pattern
  occurs in the lower-cased application name decides.
\<close>

fun custom_match :: "(string \<times> string) list \<Rightarrow> string \<Rightarrow> string option" where
  "custom_match [] app_lower = None"
| "custom_match ((pattern, category) # rules) app_lower =
     (if str_in (lower pattern) app_lower then Some category
      else custom_match rules app_lower)"

text \<open>The browser branch: a site keyword refines the category, otherwise \<open>Browsing\<close>.\<close>

definition browser_category :: "string \<Rightarrow> string" where
  "browser_category app_lower =
     (if any_in browser_dev_sites app_lower then ''Coding''
      else if any_in browser_social_sites app_lower then ''Social Media''
      else if any_in browser_entertainment_sites app_lower then ''Entertainment''
      else if any_in browser_news_sites app_lower then ''Reading''
      else if any_in browser_shopping_sites app_lower then ''Shopping''
      else if any_in browser_productivity_sites app_lower then ''Productivity''
      else ''Browsing'')"

definition builtin_category :: "string \<Rightarrow> string" where
  "builtin_category app_lower =
     (if any_in coding_keywords app_lower then ''Coding''
      else if any_in browser_keywords app_lower then browser_category app_lower
      else if any_in communication_keywords app_lower then ''Communication''
      else if any_in productivity_keywords app_lower then ''Productivity''
      else if any_in design_keywords app_lower then ''Design''
      else if any_in entertainment_keywords app_lower then ''Entertainment''
      else if any_in social_keywords app_lower then ''Social Media''
      else if any_in education_keywords app_lower then ''Education''
      else if any_in utility_keywords app_lower then ''Utilities''
      else if any_in finance_keywords app_lower then ''Finance''
      else if any_in reading_keywords app_lower then ''Reading''
      else ''Other'')"

definition categorize_app :: "config \<Rightarrow> string \<Rightarrow> string" where
  "categorize_app cfg app_name =
     (let app_lower = lower app_name in
      case custom_match (custom_categories cfg) app_lower of
        Some category \<Rightarrow> category
      | None \<Rightarrow> builtin_category app_lower)"


section \<open>Accounting store\<close>

text \<open>
  The store \<open>self.data\<close> is one dict. A date key \<open>YYYY-MM-DD\<close> maps to a day record
  (category to bucket); the reserved key \<open>streaks\<close> maps, in the same dict, to the ledger
  \<open>{"current": int, "longest": int, "last_date": str | None}\<close>. Both kinds of entry are
  dicts from strings to values, so an entry is an association list of fields, and a field is
  a bucket or one of the ledger's scalars. Dicts keep insertion order; \<open>AList.update\<close>
  overwrites an existing key in place and appends a new one, as a dict assignment does.
  Seconds are Python numbers (ints and floats); they are modelled as exact reals.
\<close>

datatype error = TypeError | KeyError | AttributeError | ProbeError

record bucket =
  total_seconds :: real
  apps :: "(string \<times> real) list"
  projects :: "(string \<times> real) list option"

datatype field = Bucket bucket | IntV int | NoneV | StrV string

type_synonym day_record = "(string \<times> field) list"

type_synonym store = "(string \<times> day_record) list"

text \<open>The ledger that \<open>TimeTracker.__init__\<close> installs when the key is absent.\<close>

definition new_streaks :: day_record where
  "new_streaks = [(''current'', IntV 0), (''longest'', IntV 0), (''last_date'', NoneV)]"

text \<open>The store after \<open>__init__\<close> when no data file exists.\<close>

definition init_data :: store where
  "init_data = [(''streaks'', new_streaks)]"

text \<open>A call either returns or raises; in both cases the mutations made so far stay.\<close>

datatype 'a outcome = Returns 'a | Raises error 'a

fun state_of :: "'a outcome \<Rightarrow> 'a" where
  "state_of (Returns s) = s"
| "state_of (Raises e s) = s"


text \<open>
  The tracker object: the store, the configuration, the session fields of \<open>__init__\<close>,
  and \<open>saved\<close>, the document last written by \<open>save_data\<close>.
\<close>

record time_tracker =
  data :: store
  config :: config
  current_app :: "string option"
  start_time :: "real option"
  idle_threshold :: real
  is_paused :: bool
  current_project :: "string option"
  focus_mode :: bool
  unknown_apps :: "string set"
  saved :: store

text \<open>Python truthiness of an optional string: neither \<open>None\<close> nor empty.\<close>

definition truthy :: "string option \<Rightarrow> bool" where
  "truthy x = (case x of None \<Rightarrow> False | Some v \<Rightarrow> v \<noteq> [])"

text \<open>\<open>if k not in m: m[k] = 0\<close> followed by \<open>m[k] += d\<close>.\<close>

definition dict_add :: "string \<Rightarrow> real \<Rightarrow> (string \<times> real) list \<Rightarrow> (string \<times> real) list" where
  "dict_add k d m = AList.update k ((case map_of m k of None \<Rightarrow> 0 | Some v \<Rightarrow> v) + d) m"

text \<open>\<open>if date not in self.data: self.data[date] = {}\<close>.\<close>

definition ensure_day :: "string \<Rightarrow> store \<Rightarrow> store" where
  "ensure_day date d = (if map_of d date = None then AList.update date [] d else d)"

text \<open>\<open>self.data[date][category]\<close>, when both keys are present.\<close>

definition get_field :: "store \<Rightarrow> string \<Rightarrow> string \<Rightarrow> field option" where
  "get_field d date category =
     (case map_of d date of None \<Rightarrow> None | Some day \<Rightarrow> map_of day category)"

text \<open>\<open>self.data[date][category] = f\<close>, for a date that is present.\<close>

definition set_field :: "string \<Rightarrow> string \<Rightarrow> field \<Rightarrow> store \<Rightarrow> store" where
  "set_field date category f d =
     (case map_of d date of
        None \<Rightarrow> d
      | Some day \<Rightarrow> AList.update date (AList.update category f day) d)"

definition ensure_bucket :: "string \<Rightarrow> string \<Rightarrow> bucket \<Rightarrow> store \<Rightarrow> store" where
  "ensure_bucket date category b d =
     (if get_field d date category = None then set_field date category (Bucket b) d else d)"

definition log_unknown_app :: "string \<Rightarrow> time_tracker \<Rightarrow> time_tracker" where
  "log_unknown_app app_name s =
     (if categorize_app (config s) app_name = ''Other''
      then s\<lparr>unknown_apps := insert app_name (unknown_apps s)\<rparr> else s)"

text \<open>
  The test at the top of \<open>record_time\<close>: the application name is lower-cased, the
  patterns of the list are used as they are.
\<close>

definition is_excluded :: "config \<Rightarrow> string \<Rightarrow> bool" where
  "is_excluded cfg app_name =
     list_ex (\<lambda>excluded. str_in excluded (lower app_name)) (excluded_apps cfg)"

text \<open>
  \<open>TimeTracker.record_time\<close>. \<open>today\<close> is the date key that \<open>datetime.now()\<close> gives
  at the call. Every bucket of this model carries the key \<open>projects\<close> (both creation
  sites write it), so the test \<open>"projects" in bucket\<close> holds; its value is \<open>None\<close> or
  a dict. Subscripting a ledger scalar with \<open>["apps"]\<close> raises \<open>TypeError\<close>, and so does
  \<open>project not in None\<close>.
\<close>

definition record_time ::
  "string \<Rightarrow> string \<Rightarrow> real \<Rightarrow> string option \<Rightarrow> time_tracker \<Rightarrow> time_tracker outcome" where
  "record_time today app_name duration_seconds project s =
     (if is_excluded (config s) app_name then Returns s
      else
        let category = categorize_app (config s) app_name;
            s1 = log_unknown_app app_name s;
            d1 = ensure_day today (data s1);
            d2 = ensure_bucket today category
                   \<lparr>total_seconds = 0, apps = [],
                    projects = (if truthy project then Some [] else None)\<rparr> d1
        in case get_field d2 today category of
             Some (Bucket b) \<Rightarrow>
               let b1 = b\<lparr>apps := dict_add app_name duration_seconds (apps b)\<rparr>;
                   b2 = b1\<lparr>total_seconds := total_seconds b1 + duration_seconds\<rparr>;
                   d3 = set_field today category (Bucket b2) d2
               in if truthy project then
                    (case projects b2 of
                       None \<Rightarrow> Raises TypeError (s1\<lparr>data := d3\<rparr>)
                     | Some pm \<Rightarrow>
                         Returns (s1\<lparr>data := set_field today category
                           (Bucket (b2\<lparr>projects :=
                              Some (dict_add (the project) duration_seconds pm)\<rparr>)) d3\<rparr>))
                  else Returns (s1\<lparr>data := d3\<rparr>)
           | _ \<Rightarrow> Raises TypeError (s1\<lparr>data := d2\<rparr>))"


section \<open>Streaks: \<open>TimeTracker.update_streaks\<close>\<close>

text \<open>\<open>ledger[k]\<close> read as a number: a missing key raises, and so does a value that is none.\<close>

definition int_field :: "day_record \<Rightarrow> string \<Rightarrow> error + int" where
  "int_field ledger k =
     (case map_of ledger k of
        None \<Rightarrow> Inl KeyError
      | Some (IntV n) \<Rightarrow> Inr n
      | Some _ \<Rightarrow> Inl TypeError)"

text \<open>
  \<open>day.get(category, {}).get("total_seconds", 0)\<close>: an absent category reads as 0; a
  scalar in the place of a bucket has no \<open>get\<close>.
\<close>

definition day_total :: "day_record \<Rightarrow> string \<Rightarrow> error + real" where
  "day_total day category =
     (case map_of day category of
        None \<Rightarrow> Inr 0
      | Some (Bucket b) \<Rightarrow> Inr (total_seconds b)
      | Some _ \<Rightarrow> Inl AttributeError)"

text \<open>
  The loop over \<open>goals.items()\<close>: only productive categories count, and the first goal
  that yesterday's hours miss ends the loop with \<open>goals_met = False\<close>.
\<close>

fun goals_met :: "string list \<Rightarrow> day_record \<Rightarrow> (string \<times> real) list \<Rightarrow> error + bool" where
  "goals_met productive day [] = Inr True"
| "goals_met productive day ((category, goal_hours) # rest) =
     (if category \<in> set productive then
        (case day_total day category of
           Inl e \<Rightarrow> Inl e
         | Inr seconds \<Rightarrow>
             if seconds / 3600 < goal_hours then Inr False
             else goals_met productive day rest)
      else goals_met productive day rest)"

text \<open>The branch \<open>if goals_met\<close>: extend or restart the streak, then raise the record.\<close>

definition streak_extend :: "bool \<Rightarrow> day_record \<Rightarrow> day_record outcome" where
  "streak_extend continuing ledger =
     (case (if continuing then
              (case int_field ledger ''current'' of
                 Inl e \<Rightarrow> Inl e
               | Inr n \<Rightarrow> Inr (AList.update ''current'' (IntV (n + 1)) ledger))
            else Inr (AList.update ''current'' (IntV 1) ledger)) of
        Inl e \<Rightarrow> Raises e ledger
      | Inr l1 \<Rightarrow>
          (case int_field l1 ''current'' of
             Inl e \<Rightarrow> Raises e l1
           | Inr c \<Rightarrow>
               (case int_field l1 ''longest'' of
                  Inl e \<Rightarrow> Raises e l1
                | Inr g \<Rightarrow>
                    Returns (if c > g then AList.update ''longest'' (IntV c) l1 else l1))))"

text \<open>The branch \<open>else\<close>: the streak is read (for the notification) and set to 0.\<close>

definition streak_reset :: "day_record \<Rightarrow> day_record outcome" where
  "streak_reset ledger =
     (case int_field ledger ''current'' of
        Inl e \<Rightarrow> Raises e ledger
      | Inr c \<Rightarrow> Returns (AList.update ''current'' (IntV 0) ledger))"

text \<open>
  \<open>update_streaks\<close>, with \<open>today\<close> and \<open>yesterday\<close> the two date keys computed from
  \<open>datetime.now()\<close>. The whole evaluation is guarded by
  \<open>last_date != today and yesterday in self.data\<close>.
\<close>

definition update_streaks :: "string \<Rightarrow> string \<Rightarrow> time_tracker \<Rightarrow> time_tracker outcome" where
  "update_streaks today yesterday s =
     (case map_of (data s) ''streaks'' of
        None \<Rightarrow> Raises KeyError s
      | Some ledger \<Rightarrow>
          let last_date = map_of ledger ''last_date'' in
          (case map_of (data s) yesterday of
             Some day \<Rightarrow>
               if last_date \<noteq> Some (StrV today) then
                 (case goals_met (productive_categories (config s)) day (goals (config s)) of
                    Inl e \<Rightarrow> Raises e s
                  | Inr met \<Rightarrow>
                      (case (if met then streak_extend (last_date = Some (StrV yesterday)) ledger
                             else streak_reset ledger) of
                         Raises e l1 \<Rightarrow> Raises e (s\<lparr>data := AList.update ''streaks'' l1 (data s)\<rparr>)
                       | Returns l1 \<Rightarrow>
                           (let d = AList.update ''streaks''
                                      (AList.update ''last_date'' (StrV today) l1) (data s)
                            in Returns (s\<lparr>data := d, saved := d\<rparr>))))
               else Returns s
           | None \<Rightarrow> Returns s))"

section \<open>Reports over the date keys\<close>

text \<open>
  \<open>sum(data["total_seconds"] for data in day.values())\<close>: every value of the entry is
  subscripted, and a scalar cannot be.
\<close>

fun sum_totals :: "day_record \<Rightarrow> error + real" where
  "sum_totals [] = Inr 0"
| "sum_totals ((category, f) # rest) =
     (case f of
        Bucket b \<Rightarrow>
          (case sum_totals rest of Inl e \<Rightarrow> Inl e | Inr t \<Rightarrow> Inr (total_seconds b + t))
      | _ \<Rightarrow> Inl TypeError)"

type_synonym csv_row = "string \<times> string \<times> string \<times> real"

text \<open>The two inner loops of \<open>export_csv\<close> for one key of the store.\<close>

fun day_rows :: "string \<Rightarrow> day_record \<Rightarrow> error + csv_row list" where
  "day_rows date [] = Inr []"
| "day_rows date ((category, f) # rest) =
     (case f of
        Bucket b \<Rightarrow>
          (case day_rows date rest of
             Inl e \<Rightarrow> Inl e
           | Inr rows \<Rightarrow>
               Inr (map (\<lambda>(app, seconds). (date, category, app, seconds / 3600)) (apps b) @ rows))
      | _ \<Rightarrow> Inl TypeError)"

fun export_rows :: "store \<Rightarrow> string list \<Rightarrow> error + csv_row list" where
  "export_rows d [] = Inr []"
| "export_rows d (date # dates) =
     (case map_of d date of
        None \<Rightarrow> Inl KeyError
      | Some day \<Rightarrow>
          (case day_rows date day of
             Inl e \<Rightarrow> Inl e
           | Inr rows \<Rightarrow>
               (case export_rows d dates of
                  Inl e \<Rightarrow> Inl e
                | Inr later \<Rightarrow> Inr (rows @ later))))"

text \<open>
  \<open>TimeTracker.export_csv\<close>: the rows written after the header, for
  \<open>date in sorted(self.data.keys())\<close>; an exception leaves the export unfinished.
\<close>

definition export_csv :: "store \<Rightarrow> error + csv_row list" where
  "export_csv d = export_rows d (sort (map fst d))"

text \<open>
  \<open>TimeTracker.list_previous_days\<close>: one line per key among the \<open>num_days\<close> greatest,
  with the hours tracked and the category names.
\<close>

fun previous_days_lines ::
  "store \<Rightarrow> string list \<Rightarrow> error + (string \<times> real \<times> string list) list" where
  "previous_days_lines d [] = Inr []"
| "previous_days_lines d (date # dates) =
     (case map_of d date of
        None \<Rightarrow> Inl KeyError
      | Some day \<Rightarrow>
          (case sum_totals day of
             Inl e \<Rightarrow> Inl e
           | Inr total_secs \<Rightarrow>
               (case previous_days_lines d dates of
                  Inl e \<Rightarrow> Inl e
                | Inr later \<Rightarrow> Inr ((date, total_secs / 3600, map fst day) # later))))"

definition list_previous_days ::
  "store \<Rightarrow> nat \<Rightarrow> error + (string \<times> real \<times> string list) list" where
  "list_previous_days d num_days =
     previous_days_lines d (take num_days (rev (sort (map fst d))))"

text \<open>
  \<open>TimeTracker.display_insights\<close>, the loop over the last seven keys: for each, the
  productive hours (\<open>Coding\<close>, \<open>Productivity\<close>), the \<open>Entertainment\<close> hours and the
  total hours. The averages and the top applications are computed after this loop.
\<close>

fun insights_days ::
  "store \<Rightarrow> string list \<Rightarrow> error + (string \<times> real \<times> real \<times> real) list" where
  "insights_days d [] = Inr []"
| "insights_days d (date # dates) =
     (case map_of d date of
        None \<Rightarrow> Inl KeyError
      | Some day \<Rightarrow>
          (case day_total day ''Coding'' of Inl e \<Rightarrow> Inl e | Inr coding \<Rightarrow>
          (case day_total day ''Productivity'' of Inl e \<Rightarrow> Inl e | Inr productivity \<Rightarrow>
          (case day_total day ''Entertainment'' of Inl e \<Rightarrow> Inl e | Inr unprod_time \<Rightarrow>
          (case sum_totals day of Inl e \<Rightarrow> Inl e | Inr total_time \<Rightarrow>
          (case insights_days d dates of Inl e \<Rightarrow> Inl e | Inr later \<Rightarrow>
             Inr ((date, (coding + productivity) / 3600, unprod_time / 3600,
                   total_time / 3600) # later)))))))"

definition display_insights :: "store \<Rightarrow> error + (string \<times> real \<times> real \<times> real) list" where
  "display_insights d =
     (if d = [] then Inr []
      else let keys = sort (map fst d) in insights_days d (drop (length keys - 7) keys))"

section \<open>Tracking loop\<close>

text \<open>
  One pass of a tracking loop reads the two probes and the clock. A probe call returns a
  value or raises. \<open>clock\<close> is the reading of \<open>time.time()\<close> that computes
  \<open>elapsed\<close>, \<open>clock_after\<close> the later reading stored in \<open>start_time\<close>, and
  \<open>today\<close> the date key of the pass.
\<close>

datatype 'a probe = Value 'a | Fails

record sample =
  idle_probe :: "real probe"
  window_probe :: "string probe"
  clock :: real
  clock_after :: real
  today :: string

text \<open>\<open>TimeTracker.is_app_blocked\<close>.\<close>

definition is_app_blocked :: "time_tracker \<Rightarrow> string \<Rightarrow> bool" where
  "is_app_blocked s app_name =
     (if \<not> focus_mode s then False
      else list_ex (\<lambda>blocked_app. str_in blocked_app (lower app_name))
             (focus_mode_blocked (config s)))"

text \<open>\<open>TimeTracker.save_data\<close>: the whole store is written.\<close>

definition save_data :: "time_tracker \<Rightarrow> time_tracker" where
  "save_data s = s\<lparr>saved := data s\<rparr>"

text \<open>
  The flush of the switch branch and of \<open>stop_tracking\<close>:
  \<open>if self.current_app: elapsed = time.time() - self.start_time; self.record_time(...)\<close>.
  Subtracting \<open>None\<close> raises \<open>TypeError\<close>.
\<close>

definition flush_current :: "real \<Rightarrow> string \<Rightarrow> time_tracker \<Rightarrow> time_tracker outcome" where
  "flush_current now date s =
     (case current_app s of
        None \<Rightarrow> Returns s
      | Some app \<Rightarrow>
          if app = [] then Returns s
          else (case start_time s of
                  None \<Rightarrow> Raises TypeError s
                | Some t0 \<Rightarrow> record_time date app (now - t0) (current_project s) s))"

text \<open>\<open>TimeTracker.stop_tracking\<close>.\<close>

definition stop_tracking :: "real \<Rightarrow> string \<Rightarrow> time_tracker \<Rightarrow> time_tracker outcome" where
  "stop_tracking now date s =
     (case flush_current now date s of
        Raises e s1 \<Rightarrow> Raises e s1
      | Returns s1 \<Rightarrow> Returns (save_data s1))"

text \<open>
  The body of \<open>while True\<close> in \<open>TimeTracker.run\<close>, up to the sleep. The goal and break
  notifications and the dashboard that follow the idle test only read the store and the
  session fields; they are left out.
\<close>

definition tick :: "real \<Rightarrow> sample \<Rightarrow> time_tracker \<Rightarrow> time_tracker outcome" where
  "tick check_interval smp s =
     (if is_paused s then Returns s
      else case idle_probe smp of
        Fails \<Rightarrow> Raises ProbeError s
      | Value idle_time \<Rightarrow>
          if idle_time < idle_threshold s then
            (case window_probe smp of
               Fails \<Rightarrow> Raises ProbeError s
             | Value app \<Rightarrow>
                 if app \<noteq> [] \<and> app \<noteq> ''Unknown'' then
                   if is_app_blocked s app then Returns s
                   else if current_app s = Some app then
                     (case start_time s of
                        None \<Rightarrow> Raises TypeError s
                      | Some t0 \<Rightarrow>
                          let elapsed = clock smp - t0 in
                          if elapsed \<ge> check_interval then
                            (case record_time (today smp) app elapsed (current_project s) s of
                               Raises e s1 \<Rightarrow> Raises e s1
                             | Returns s1 \<Rightarrow>
                                 Returns (save_data (s1\<lparr>start_time := Some (clock_after smp)\<rparr>)))
                          else Returns s)
                   else
                     (case flush_current (clock smp) (today smp) s of
                        Raises e s1 \<Rightarrow> Raises e s1
                      | Returns s1 \<Rightarrow>
                          Returns (s1\<lparr>current_app := Some app,
                                      start_time := Some (clock_after smp)\<rparr>))
                 else Returns s)
          else
            if truthy (current_app s)
            then Returns (s\<lparr>current_app := None, start_time := None\<rparr>)
            else Returns s)"

text \<open>
  \<open>TimeTracker.run\<close> on a finite prefix of what happens to it: a pass of the loop, the
  tray menu toggling \<open>is_paused\<close> between two passes, or Ctrl+C. Only
  \<open>KeyboardInterrupt\<close> has a handler; any other exception leaves \<open>run\<close>.
\<close>

datatype event = Tick sample | PauseToggle | KeyboardInterrupt real string

datatype status = Running | Stopped | Crashed error

fun run_loop :: "real \<Rightarrow> event list \<Rightarrow> time_tracker \<Rightarrow> status \<times> time_tracker" where
  "run_loop check_interval [] s = (Running, s)"
| "run_loop check_interval (Tick smp # events) s =
     (case tick check_interval smp s of
        Raises e s1 \<Rightarrow> (Crashed e, s1)
      | Returns s1 \<Rightarrow> run_loop check_interval events s1)"
| "run_loop check_interval (PauseToggle # events) s =
     run_loop check_interval events (s\<lparr>is_paused := \<not> is_paused s\<rparr>)"
| "run_loop check_interval (KeyboardInterrupt now date # events) s =
     (case stop_tracking now date s of
        Raises e s1 \<Rightarrow> (Crashed e, s1)
      | Returns s1 \<Rightarrow> (Stopped, s1))"

text \<open>\<open>run\<close> updates the streaks once, before the loop and outside its \<open>try\<close>.\<close>

definition run ::
  "real \<Rightarrow> string \<Rightarrow> string \<Rightarrow> event list \<Rightarrow> time_tracker \<Rightarrow> status \<times> time_tracker" where
  "run check_interval date yesterday events s =
     (case update_streaks date yesterday s of
        Raises e s1 \<Rightarrow> (Crashed e, s1)
      | Returns s1 \<Rightarrow> run_loop check_interval events s1)"

subsection \<open>The loop of the graphical shell: \<open>TimeTrackerGUI.run_tracker\<close>\<close>

text \<open>The helper \<open>get_current_elapsed_time\<close>: 0 when \<open>start_time\<close> is falsy.\<close>

definition get_current_elapsed_time :: "real \<Rightarrow> time_tracker \<Rightarrow> real" where
  "get_current_elapsed_time now s =
     (case start_time s of
        None \<Rightarrow> 0
      | Some t0 \<Rightarrow> if t0 = 0 then 0 else now - t0)"

text \<open>The body of the inner \<open>try\<close>; the period is the literal 5.\<close>

definition gui_tick :: "sample \<Rightarrow> time_tracker \<Rightarrow> time_tracker outcome" where
  "gui_tick smp s =
     (case idle_probe smp of
        Fails \<Rightarrow> Raises ProbeError s
      | Value idle_time \<Rightarrow>
          if idle_time < idle_threshold s then
            (case window_probe smp of
               Fails \<Rightarrow> Raises ProbeError s
             | Value app \<Rightarrow>
                 if app \<noteq> [] \<and> app \<noteq> ''Unknown'' then
                   if is_app_blocked s app then Returns s
                   else if current_app s = Some app then
                     (let elapsed = get_current_elapsed_time (clock smp) s in
                      if elapsed \<ge> 5 then
                        (case record_time (today smp) app elapsed (current_project s) s of
                           Raises e s1 \<Rightarrow> Raises e s1
                         | Returns s1 \<Rightarrow>
                             Returns (save_data (s1\<lparr>start_time := Some (clock_after smp)\<rparr>)))
                      else Returns s)
                   else
                     (case (if truthy (current_app s)
                            then record_time (today smp) (the (current_app s))
                                   (get_current_elapsed_time (clock smp) s) (current_project s) s
                            else Returns s) of
                        Raises e s1 \<Rightarrow> Raises e s1
                      | Returns s1 \<Rightarrow>
                          Returns (s1\<lparr>current_app := Some app,
                                      start_time := Some (clock_after smp)\<rparr>))
                 else Returns s)
          else
            if truthy (current_app s)
            then Returns (s\<lparr>current_app := None, start_time := None\<rparr>)
            else Returns s)"

text \<open>
  The shell keeps the tracker, the flag \<open>is_tracking\<close> that the loop tests, and the
  text of the last error.
\<close>

record time_tracker_gui =
  tracker :: time_tracker
  is_tracking :: bool
  last_error :: "error option"

text \<open>
  One iteration of \<open>while self.is_tracking\<close>: the inner \<open>except Exception\<close> logs the
  error, stores it and lets the loop go on.
\<close>

definition gui_iteration :: "sample \<Rightarrow> time_tracker_gui \<Rightarrow> time_tracker_gui" where
  "gui_iteration smp g =
     (case gui_tick smp (tracker g) of
        Raises e s1 \<Rightarrow> g\<lparr>tracker := s1, last_error := Some e\<rparr>
      | Returns s1 \<Rightarrow> g\<lparr>tracker := s1\<rparr>)"

text \<open>
  \<open>run_tracker\<close> on a list of samples, one per iteration: the loop ends when the flag is
  cleared, and is still running when the samples are used up.
\<close>

fun gui_loop :: "sample list \<Rightarrow> time_tracker_gui \<Rightarrow> status \<times> time_tracker_gui" where
  "gui_loop [] g = (if is_tracking g then Running else Stopped, g)"
| "gui_loop (smp # smps) g =
     (if is_tracking g then gui_loop smps (gui_iteration smp g) else (Stopped, g))"

definition run_tracker :: "sample list \<Rightarrow> time_tracker_gui \<Rightarrow> status \<times> time_tracker_gui" where
  "run_tracker smps g = gui_loop smps (g\<lparr>tracker := (tracker g)\<lparr>is_paused := False\<rparr>\<rparr>)"

section \<open>Invariant, call sequences and idle samples\<close>



text \<open>A field that is a bucket, and an entry all of whose fields are buckets.\<close>

definition is_bucket :: "field \<Rightarrow> bool" where
  "is_bucket f = (case f of Bucket b \<Rightarrow> True | _ \<Rightarrow> False)"

definition all_buckets :: "day_record \<Rightarrow> bool" where
  "all_buckets day = list_all (\<lambda>(category, f). is_bucket f) day"

text \<open>
  A call of one of the two mutators, with the date key of the moment of the call. A
  sequence of calls runs on the state each call leaves, whether it returned or raised.
\<close>

datatype call =
    RecordTime string string real "string option"
  | ManualEntry string string string real "string option" "string option"



text \<open>The idle test of a pass: the probe answers, and not below the threshold.\<close>

definition is_idle :: "time_tracker \<Rightarrow> sample \<Rightarrow> bool" where
  "is_idle s smp =
     (case idle_probe smp of Value idle_time \<Rightarrow> \<not> idle_time < idle_threshold s | Fails \<Rightarrow> False)"

section \<open>Example configurations, stores and sessions\<close>


text \<open>The default goals and productive categories, and one exclusion pattern.\<close>

definition example_config :: config where
  "example_config =
     \<lparr>goals = [(''Coding'', 4), (''Entertainment'', 2)], custom_categories = [],
      excluded_apps = [''Notepad''],
      focus_mode_blocked = [''facebook'', ''youtube''],
      productive_categories = [''Coding'', ''Productivity'', ''Education'']\<rparr>"

text \<open>The tracker right after \<open>__init__\<close> without a data file.\<close>

definition fresh_tracker :: time_tracker where
  "fresh_tracker =
     \<lparr>data = init_data, config = example_config, current_app = None, start_time = None,
      idle_threshold = 300, is_paused = False, current_project = None, focus_mode = False,
      unknown_apps = {}, saved = init_data\<rparr>"


text \<open>A day whose \<open>Coding\<close> bucket was created by a call without a project.\<close>

definition day_with_null_projects :: time_tracker where
  "day_with_null_projects =
     fresh_tracker\<lparr>data :=
       [(''streaks'', new_streaks),
        (''2024-01-02'',
         [(''Coding'', Bucket \<lparr>total_seconds = 7, apps = [(''vim'', 7)], projects = None\<rparr>)])]\<rparr>"

text \<open>The store of \<open>day_with_null_projects\<close> without the ledger.\<close>

definition day_without_ledger :: store where
  "day_without_ledger =
     [(''2024-01-02'',
       [(''Coding'', Bucket \<lparr>total_seconds = 7, apps = [(''vim'', 7)], projects = None\<rparr>)])]"

text \<open>
  A sample on 2 January 2024 with the user active (\<open>idle\<close> seconds since the last input)
  in the window \<open>app\<close> at clock reading \<open>now\<close>, and one with a failing idle probe.
\<close>

definition sample_at :: "real \<Rightarrow> real \<Rightarrow> string \<Rightarrow> sample" where
  "sample_at idle now app =
     \<lparr>idle_probe = Value idle, window_probe = Value app, clock = now, clock_after = now,
      today = ''2024-01-02''\<rparr>"

definition failing_sample :: "real \<Rightarrow> sample" where
  "failing_sample now =
     \<lparr>idle_probe = Fails, window_probe = Value ''vim'', clock = now, clock_after = now,
      today = ''2024-01-02''\<rparr>"

text \<open>A fresh tracker that has been timing \<open>vim\<close> since clock reading 100.\<close>

definition tracking_vim :: time_tracker where
  "tracking_vim = fresh_tracker\<lparr>current_app := Some ''vim'', start_time := Some 100\<rparr>"

text \<open>
  A session on a day whose \<open>Coding\<close> bucket has \<open>projects = None\<close>, timing \<open>bash\<close>
  since clock reading 100 with the project \<open>thesis\<close> selected.
\<close>

definition session_with_project :: time_tracker where
  "session_with_project =
     day_with_null_projects\<lparr>current_app := Some ''bash'', start_time := Some 100,
                            current_project := Some ''thesis''\<rparr>"

text \<open>
  \<open>vim\<close> is in front from 100 on; the tray menu pauses after the pass at 105 and resumes
  before the pass at 3705.
\<close>

definition paused_hour :: "event list" where
  "paused_hour =
     [Tick (sample_at 0 100 ''vim''), Tick (sample_at 1 105 ''vim''), PauseToggle,
      Tick (sample_at 2 110 ''vim''), Tick (sample_at 3 115 ''vim''), PauseToggle,
      Tick (sample_at 0 3705 ''vim'')]"

text \<open>The same two sessions inside the graphical shell, with tracking switched on.\<close>

definition gui_tracking_vim :: time_tracker_gui where
  "gui_tracking_vim = \<lparr>tracker = tracking_vim, is_tracking = True, last_error = None\<rparr>"

definition gui_session_with_project :: time_tracker_gui where
  "gui_session_with_project =
     \<lparr>tracker = session_with_project, is_tracking = True, last_error = None\<rparr>"

text \<open>
  A three-day streak last updated on 30 December 2023, with five hours of coding on that
  day and nothing recorded since.
\<close>

definition stale_ledger :: day_record where
  "stale_ledger =
     [(''current'', IntV 3), (''longest'', IntV 5), (''last_date'', StrV ''2023-12-30'')]"

definition stale_streak :: time_tracker where
  "stale_streak =
     fresh_tracker\<lparr>data :=
       [(''streaks'', stale_ledger),
        (''2023-12-30'',
         [(''Coding'', Bucket \<lparr>total_seconds = 18000, apps = [(''vim'', 18000)],
                               projects = None\<rparr>)])]\<rparr>"

text \<open>
  A three-day streak updated on 2 January 2024, a day with an hour of music and no
  coding.
\<close>

definition music_ledger :: day_record where
  "music_ledger =
     [(''current'', IntV 3), (''longest'', IntV 5), (''last_date'', StrV ''2024-01-02'')]"

definition music_day :: day_record where
  "music_day =
     [(''Entertainment'', Bucket \<lparr>total_seconds = 3600, apps = [(''spotify'', 3600)],
                                  projects = None\<rparr>)]"

definition music_only :: time_tracker where
  "music_only =
     fresh_tracker\<lparr>data := [(''streaks'', music_ledger), (''2024-01-02'', music_day)]\<rparr>"

section \<open>Properties of the string functions\<close>

lemma starts_with_iff: "starts_with p s \<longleftrightarrow> (\<exists>suf. s = p @ suf)"
  by (induction p s rule: starts_with.induct) auto

text \<open>\<open>str_in\<close> is the substring test.\<close>

lemma str_in_iff: "str_in p s \<longleftrightarrow> (\<exists>pre suf. s = pre @ p @ suf)"
proof (induction s)
  case Nil
  then show ?case by auto
next
  case (Cons c cs)
  show ?case
  proof
    assume "str_in p (c # cs)"
    then consider "starts_with p (c # cs)" | "str_in p cs" by auto
    then show "\<exists>pre suf. c # cs = pre @ p @ suf"
    proof cases
      case 1
      then obtain suf where "c # cs = p @ suf" using starts_with_iff by blast
      then have "c # cs = [] @ p @ suf" by simp
      then show ?thesis by blast
    next
      case 2
      then obtain pre suf where "cs = pre @ p @ suf" using Cons.IH by blast
      then have "c # cs = (c # pre) @ p @ suf" by simp
      then show ?thesis by blast
    qed
  next
    assume "\<exists>pre suf. c # cs = pre @ p @ suf"
    then obtain pre suf where eq: "c # cs = pre @ p @ suf" by blast
    show "str_in p (c # cs)"
    proof (cases pre)
      case Nil
      with eq have "starts_with p (c # cs)" using starts_with_iff by auto
      then show ?thesis by simp
    next
      case (Cons a pre')
      with eq have "cs = pre' @ p @ suf" by simp
      then have "str_in p cs" using Cons.IH by blast
      then show ?thesis by simp
    qed
  qed
qed

section \<open>Classifier: custom rules come first\<close>




section \<open>Accounting conservation\<close>




lemma list_all_map_of:
  "list_all P al \<Longrightarrow> map_of al k = Some v \<Longrightarrow> P (k, v)"
  by (induction al) (auto split: if_splits)





lemma data_log_unknown_app [simp]: "data (log_unknown_app app_name s) = data s"
  by (simp add: log_unknown_app_def)








section \<open>\<open>record_time\<close> case by case\<close>


lemma get_field_ensure_day [simp]:
  "get_field (ensure_day date d) date' category = get_field d date' category"
  by (auto simp: ensure_day_def get_field_def update_conv' split: option.splits)


lemma map_of_set_field_None [simp]:
  "map_of (set_field date category f d) date' = None \<longleftrightarrow> map_of d date' = None"
  by (auto simp: set_field_def update_conv' split: option.splits)

lemma ensure_bucket_present:
  "get_field d date category = Some f \<Longrightarrow> ensure_bucket date category b d = d"
  by (simp add: ensure_bucket_def)

lemma ensure_day_present:
  "get_field d date category = Some f \<Longrightarrow> ensure_day date d = d"
  by (auto simp: ensure_day_def get_field_def split: option.splits)


lemma map_of_ensure_bucket_None [simp]:
  "map_of (ensure_bucket date category b d) date' = None \<longleftrightarrow> map_of d date' = None"
  by (simp add: ensure_bucket_def)



lemma record_time_on_scalar:
  assumes "\<not> is_excluded (config s) app_name"
    and "get_field (data s) date (categorize_app (config s) app_name) = Some f"
    and "\<forall>b. f \<noteq> Bucket b"
  shows "record_time date app_name duration_seconds project s
           = Raises TypeError (log_unknown_app app_name s)"
  using assms
  by (cases f) (simp_all add: record_time_def Let_def ensure_day_present ensure_bucket_present)


lemma config_log_unknown_app [simp]: "config (log_unknown_app app_name s) = config s"
  by (simp add: log_unknown_app_def)



section \<open>Excluded applications\<close>

text \<open>When the exclusion test succeeds, \<open>record_time\<close> returns and changes nothing.\<close>

lemma record_time_excluded:
  "is_excluded (config s) app_name
   \<Longrightarrow> record_time date app_name duration_seconds project s = Returns s"
  by (simp add: record_time_def)

text \<open>
  A pattern that contains a character changed by \<open>lower\<close> (an upper-case letter) occurs
  in no lower-cased identifier, so it excludes nothing.
\<close>

lemma lower_char_idem: "lower_char (lower_char c) = lower_char c"
  by (simp add: lower_char_def)

lemma str_in_set: "str_in p s \<Longrightarrow> set p \<subseteq> set s"
  by (auto simp: str_in_iff)

lemma upper_case_pattern_never_matches:
  assumes "c \<in> set pattern" and "lower_char c \<noteq> c"
  shows "\<not> str_in pattern (lower app_name)"
proof
  assume "str_in pattern (lower app_name)"
  then have "c \<in> set (lower app_name)" using assms(1) str_in_set by blast
  then obtain x where "c = lower_char x" by (auto simp: lower_def)
  then show False using assms(2) lower_char_idem by metis
qed

lemma upper_case_exclusions_are_dead:
  assumes "\<forall>pattern \<in> set (excluded_apps cfg). \<exists>c \<in> set pattern. lower_char c \<noteq> c"
  shows "\<not> is_excluded cfg app_name"
  using assms upper_case_pattern_never_matches
  by (auto simp: is_excluded_def list_ex_iff)

text \<open>
  C5. The exclusion list holds the pattern \<open>Notepad\<close> as the user typed it. The
  identifier \<open>Notepad - notes.txt\<close> contains it, with or without regard to case, but
  \<open>record_time\<close> compares the pattern as it is with the lower-cased identifier, finds
  no match and records the seven seconds.
\<close>

theorem excluded_pattern_case_mismatch:
  "excluded_apps (config fresh_tracker) = [''Notepad'']
   \<and> str_in (lower ''Notepad'') (lower ''Notepad - notes.txt'')
   \<and> record_time ''2024-01-02'' ''Notepad - notes.txt'' 7 None fresh_tracker
       = Returns (fresh_tracker\<lparr>data :=
           [(''streaks'', new_streaks),
            (''2024-01-02'',
             [(''Utilities'',
               Bucket \<lparr>total_seconds = 7, apps = [(''Notepad - notes.txt'', 7)],
                       projects = None\<rparr>)])]\<rparr>)"
  by code_simp

section \<open>Idle passes\<close>

lemma tick_idle:
  assumes "is_idle s smp" and "\<not> is_paused s"
  shows "tick ci smp s =
           Returns (if truthy (current_app s) then s\<lparr>current_app := None, start_time := None\<rparr> else s)"
  using assms by (auto simp: tick_def is_idle_def split: probe.splits)

lemma gui_tick_idle:
  assumes "is_idle s smp"
  shows "gui_tick smp s =
           Returns (if truthy (current_app s) then s\<lparr>current_app := None, start_time := None\<rparr> else s)"
  using assms by (auto simp: gui_tick_def is_idle_def split: probe.splits)

lemma run_loop_idle:
  assumes "list_all (is_idle s) smps" and "\<not> is_paused s" and "\<not> truthy (current_app s)"
  shows "run_loop ci (map Tick smps) s = (Running, s)"
  using assms by (induction smps) (simp_all add: tick_idle)

lemma gui_loop_idle:
  assumes "list_all (is_idle (tracker g)) smps" and "is_tracking g" and "\<not> truthy (current_app (tracker g))"
  shows "gui_loop smps g = (Running, g)"
  using assms by (induction smps) (simp_all add: gui_tick_idle gui_iteration_def)

text \<open>
  C1 (amended). On a pass where the idle probe answers with at least the idle threshold
  while an application is being timed, neither loop calls \<open>record_time\<close>: the pass
  only sets \<open>current_app\<close> and \<open>start_time\<close> to \<open>None\<close>, so the store and every other
  field stay as they were and the time elapsed since \<open>start_time\<close> is dropped. Any
  number of further idle passes leave that state unchanged. This holds for the body of
  \<open>TimeTracker.run\<close> (when not paused) and for the body of \<open>run_tracker\<close>.
\<close>

theorem idle_tick_discards:
  assumes "truthy (current_app s)" and "\<not> is_paused s"
    and "is_idle s smp" and "list_all (is_idle s) smps"
    and "is_tracking g" and "tracker g = s"
  shows "tick ci smp s = Returns (s\<lparr>current_app := None, start_time := None\<rparr>)
       \<and> run_loop ci (map Tick (smp # smps)) s
           = (Running, s\<lparr>current_app := None, start_time := None\<rparr>)
       \<and> gui_tick smp s = Returns (s\<lparr>current_app := None, start_time := None\<rparr>)
       \<and> gui_loop (smp # smps) g
           = (Running, g\<lparr>tracker := s\<lparr>current_app := None, start_time := None\<rparr>\<rparr>)"
proof -
  let ?s' = "s\<lparr>current_app := None, start_time := None\<rparr>"
  have "is_idle ?s' = is_idle s"
    by (auto simp: is_idle_def fun_eq_iff split: probe.splits)
  then have idle': "list_all (is_idle ?s') smps"
    using assms(4) by simp
  have np: "\<not> is_paused ?s'" using assms(2) by simp
  have nt: "\<not> truthy (current_app ?s')" by (simp add: truthy_def)
  have t: "tick ci smp s = Returns ?s'"
    using tick_idle [OF assms(3) assms(2)] assms(1) by simp
  have l: "run_loop ci (map Tick (smp # smps)) s = (Running, ?s')"
    using t run_loop_idle [OF idle' np nt] by simp
  have gt: "gui_tick smp s = Returns ?s'"
    using gui_tick_idle [OF assms(3)] assms(1) by simp
  let ?g' = "g\<lparr>tracker := ?s'\<rparr>"
  have "gui_loop smps ?g' = (Running, ?g')"
    using gui_loop_idle [of ?g' smps] idle' assms(5) nt by simp
  then have gl: "gui_loop (smp # smps) g = (Running, ?g')"
    using gt assms(5,6) by (simp add: gui_iteration_def)
  show ?thesis using t l gt gl by simp
qed

theorem idle_tick_discards_witness:
  "truthy (current_app tracking_vim) \<and> \<not> is_paused tracking_vim
   \<and> is_idle tracking_vim (sample_at 300 107 ''vim'')
   \<and> list_all (is_idle tracking_vim) [sample_at 305 112 ''vim'', sample_at 310 117 ''vim'']
   \<and> is_tracking gui_tracking_vim
   \<and> tracker gui_tracking_vim = tracking_vim
   \<and> tick 5 (sample_at 300 107 ''vim'') tracking_vim
       = Returns (tracking_vim\<lparr>current_app := None, start_time := None\<rparr>)
   \<and> run_loop 5 (map Tick (sample_at 300 107 ''vim''
                             # [sample_at 305 112 ''vim'', sample_at 310 117 ''vim'']))
         tracking_vim
       = (Running, tracking_vim\<lparr>current_app := None, start_time := None\<rparr>)
   \<and> gui_tick (sample_at 300 107 ''vim'') tracking_vim
       = Returns (tracking_vim\<lparr>current_app := None, start_time := None\<rparr>)
   \<and> gui_loop (sample_at 300 107 ''vim''
                # [sample_at 305 112 ''vim'', sample_at 310 117 ''vim'']) gui_tracking_vim
       = (Running,
          gui_tracking_vim\<lparr>tracker := tracking_vim\<lparr>current_app := None, start_time := None\<rparr>\<rparr>)"
proof -
  have h1: "truthy (current_app tracking_vim)" by code_simp
  have h2: "\<not> is_paused tracking_vim" by code_simp
  have h3: "is_idle tracking_vim (sample_at 300 107 ''vim'')" by code_simp
  have h4: "list_all (is_idle tracking_vim) [sample_at 305 112 ''vim'', sample_at 310 117 ''vim'']"
    by code_simp
  have h5: "is_tracking gui_tracking_vim" by code_simp
  have h6: "tracker gui_tracking_vim = tracking_vim" by (simp add: gui_tracking_vim_def)
  show ?thesis
    using h1 h2 h3 h4 h5 h6 idle_tick_discards [OF h1 h2 h3 h4 h5 h6, of 5] by blast
qed

text \<open>
  The claim as stated fails: \<open>vim\<close> has been timed since clock reading 100 and the user
  is found idle at 107. Flushing would put 7 seconds into the \<open>Coding\<close> bucket; after
  the idle pass of either loop the store is still the initial one.
\<close>

theorem idle_tick_no_flush_counterexample:
  "current_app tracking_vim = Some ''vim'' \<and> start_time tracking_vim = Some 100
   \<and> data tracking_vim = init_data
   \<and> data (state_of (tick 5 (sample_at 300 107 ''vim'') tracking_vim)) = init_data
   \<and> data (state_of (gui_tick (sample_at 300 107 ''vim'') tracking_vim)) = init_data
   \<and> data (state_of (record_time ''2024-01-02'' ''vim'' (107 - 100) None tracking_vim))
       = [(''streaks'', new_streaks),
          (''2024-01-02'',
           [(''Coding'', Bucket \<lparr>total_seconds = 7, apps = [(''vim'', 7)], projects = None\<rparr>)])]
   \<and> data (state_of (tick 5 (sample_at 300 107 ''vim'') tracking_vim))
       \<noteq> data (state_of (record_time ''2024-01-02'' ''vim'' (107 - 100) None tracking_vim))"
  by code_simp

section \<open>Exceptions during a pass\<close>

text \<open>
  The loop of the graphical shell stores the error of a failing pass and goes on; its
  flag \<open>is_tracking\<close> is untouched, and no list of samples makes it crash.
\<close>

lemma gui_loop_never_crashes: "fst (gui_loop smps g) \<noteq> Crashed e"
  by (induction smps arbitrary: g) simp_all

lemma gui_iteration_is_tracking: "is_tracking (gui_iteration smp g) = is_tracking g"
  by (simp add: gui_iteration_def split: outcome.splits)

text \<open>In \<open>TimeTracker.run\<close> an exception of a pass ends the loop; later passes do not run.\<close>

lemma run_loop_stops_at_raise:
  "tick check_interval smp s = Raises e s1
   \<Longrightarrow> run_loop check_interval (Tick smp # events) s = (Crashed e, s1)"
  by simp

text \<open>
  C4. In \<open>TimeTracker.run\<close> the only handler around the loop is for
  \<open>KeyboardInterrupt\<close>. With the project \<open>thesis\<close> selected and a \<open>Coding\<close> bucket
  whose \<open>projects\<close> is \<open>None\<close>, the pass at 105 calls \<open>record_time\<close>, which raises
  \<open>TypeError\<close>: the loop ends there and the pass at 110 never runs. A failing idle
  probe ends the loop in the same way. On the same samples the loop of the graphical
  shell records the error and is still running.
\<close>

theorem run_crashes_on_failing_tick:
  "run_loop 5 [Tick (sample_at 0 105 ''bash''), Tick (sample_at 0 110 ''bash'')]
       session_with_project
     = (Crashed TypeError,
        session_with_project\<lparr>data :=
          [(''streaks'', new_streaks),
           (''2024-01-02'',
            [(''Coding'', Bucket \<lparr>total_seconds = 12, apps = [(''vim'', 7), (''bash'', 5)],
                                   projects = None\<rparr>)])]\<rparr>)
   \<and> run_loop 5 [Tick (failing_sample 105), Tick (sample_at 0 110 ''vim'')] tracking_vim
     = (Crashed ProbeError, tracking_vim)
   \<and> fst (run_tracker [sample_at 0 105 ''bash'', sample_at 0 110 ''bash'']
            gui_session_with_project) = Running
   \<and> last_error (snd (run_tracker [sample_at 0 105 ''bash'', sample_at 0 110 ''bash'']
            gui_session_with_project)) = Some TypeError"
  by code_simp

section \<open>Pausing\<close>

text \<open>A paused pass of \<open>TimeTracker.run\<close> changes nothing, \<open>start_time\<close> included.\<close>

lemma tick_paused: "is_paused s \<Longrightarrow> tick check_interval smp s = Returns s"
  by (simp add: tick_def)

text \<open>Any number of paused passes is skipped as a whole.\<close>

lemma paused_passes_are_skipped:
  "is_paused s \<Longrightarrow> run_loop check_interval (map Tick smps @ events) s
     = run_loop check_interval events s"
  by (induction smps) (simp_all add: tick_def)

text \<open>
  C8. \<open>vim\<close> is timed from 100, five seconds are recorded at 105, tracking is paused
  right after and resumed an hour later. The paused passes leave \<open>start_time\<close> at 105,
  so the first pass after the resume (at 3705) records 3600 seconds for \<open>vim\<close>: the
  whole paused interval is attributed to the application, 3605 seconds in total.
\<close>

theorem paused_interval_recorded:
  "run_loop 5 paused_hour fresh_tracker
     = (Running,
        fresh_tracker\<lparr>
          data := [(''streaks'', new_streaks),
                   (''2024-01-02'',
                    [(''Coding'', Bucket \<lparr>total_seconds = 3605, apps = [(''vim'', 3605)],
                                           projects = None\<rparr>)])],
          current_app := Some ''vim'', start_time := Some 3705,
          saved := [(''streaks'', new_streaks),
                   (''2024-01-02'',
                    [(''Coding'', Bucket \<lparr>total_seconds = 3605, apps = [(''vim'', 3605)],
                                           projects = None\<rparr>)])]\<rparr>)"
  by code_simp

section \<open>Streaks\<close>

lemma day_total_all_buckets:
  "all_buckets day \<Longrightarrow> \<exists>seconds. day_total day category = Inr seconds"
  unfolding all_buckets_def day_total_def
  by (auto split: option.splits field.splits dest!: list_all_map_of simp: is_bucket_def)

lemma goals_met_unmet:
  assumes "all_buckets day" and "(category, goal_hours) \<in> set gs"
    and "category \<in> set productive" and "map_of day category = None" and "0 < goal_hours"
  shows "goals_met productive day gs = Inr False"
  using assms(2)
proof (induction gs)
  case Nil
  then show ?case by simp
next
  case (Cons g gs)
  obtain c h where g: "g = (c, h)" by (cases g)
  show ?case
  proof (cases "g = (category, goal_hours)")
    case True
    then show ?thesis using assms(3,4,5) by (simp add: day_total_def)
  next
    case False
    then have IH: "goals_met productive day gs = Inr False" using Cons by auto
    obtain seconds where "day_total day c = Inr seconds"
      using day_total_all_buckets [OF assms(1)] by blast
    then show ?thesis using IH g by simp
  qed
qed

lemma update_streaks_no_yesterday:
  "map_of (data s) ''streaks'' = Some ledger \<Longrightarrow> map_of (data s) yesterday = None
   \<Longrightarrow> update_streaks date yesterday s = Returns s"
  by (simp add: update_streaks_def)

text \<open>
  C7 (amended). When \<open>update_streaks\<close> runs with \<open>last_date\<close> different from today,
  a record for yesterday exists in the store (possibly empty), and some productive
  category has a configured goal greater than 0 but no bucket in yesterday's record,
  then that category's seconds read as 0, the goals count as not met, the current streak
  is reset to 0 and \<open>last_date\<close> becomes today. When the store has no record for
  yesterday, \<open>update_streaks\<close> returns without changing anything.
\<close>

theorem goal_without_data_resets_streak:
  assumes "map_of (data s) ''streaks'' = Some ledger"
    and "map_of ledger ''last_date'' \<noteq> Some (StrV date)"
    and "int_field ledger ''current'' = Inr n"
    and "map_of (data s) yesterday = Some day"
    and "all_buckets day"
    and "(category, goal_hours) \<in> set (goals (config s))"
    and "category \<in> set (productive_categories (config s))"
    and "0 < goal_hours"
    and "map_of day category = None"
  shows "day_total day category = Inr 0
       \<and> goals_met (productive_categories (config s)) day (goals (config s)) = Inr False
       \<and> update_streaks date yesterday s =
           Returns (s\<lparr>data := AList.update ''streaks''
                       (AList.update ''last_date'' (StrV date)
                          (AList.update ''current'' (IntV 0) ledger)) (data s),
                      saved := AList.update ''streaks''
                       (AList.update ''last_date'' (StrV date)
                          (AList.update ''current'' (IntV 0) ledger)) (data s)\<rparr>)
       \<and> (map_of (data t) ''streaks'' = Some ledger' \<longrightarrow> map_of (data t) yesterday' = None
            \<longrightarrow> update_streaks date' yesterday' t = Returns t)"
proof -
  have z: "day_total day category = Inr 0"
    using assms(9) by (simp add: day_total_def)
  have unmet: "goals_met (productive_categories (config s)) day (goals (config s)) = Inr False"
    using goals_met_unmet [OF assms(5) assms(6) assms(7) assms(9) assms(8)] .
  have u: "update_streaks date yesterday s =
           Returns (s\<lparr>data := AList.update ''streaks''
                       (AList.update ''last_date'' (StrV date)
                          (AList.update ''current'' (IntV 0) ledger)) (data s),
                      saved := AList.update ''streaks''
                       (AList.update ''last_date'' (StrV date)
                          (AList.update ''current'' (IntV 0) ledger)) (data s)\<rparr>)"
    using assms(1,2,3,4) unmet
    by (simp add: update_streaks_def streak_reset_def Let_def)
  show ?thesis using z unmet u update_streaks_no_yesterday by blast
qed

theorem goal_without_data_resets_streak_witness:
  "map_of (data music_only) ''streaks'' = Some music_ledger
   \<and> map_of music_ledger ''last_date'' \<noteq> Some (StrV ''2024-01-03'')
   \<and> int_field music_ledger ''current'' = Inr 3
   \<and> map_of (data music_only) ''2024-01-02'' = Some music_day
   \<and> all_buckets music_day
   \<and> (''Coding'', 4) \<in> set (goals (config music_only))
   \<and> ''Coding'' \<in> set (productive_categories (config music_only))
   \<and> (0::real) < 4
   \<and> map_of music_day ''Coding'' = None
   \<and> map_of (data stale_streak) ''streaks'' = Some stale_ledger
   \<and> map_of (data stale_streak) ''2024-01-02'' = None
   \<and> day_total music_day ''Coding'' = Inr 0
   \<and> goals_met (productive_categories (config music_only)) music_day
         (goals (config music_only)) = Inr False
   \<and> update_streaks ''2024-01-03'' ''2024-01-02'' music_only =
           Returns (music_only\<lparr>data := AList.update ''streaks''
                       (AList.update ''last_date'' (StrV ''2024-01-03'')
                          (AList.update ''current'' (IntV 0) music_ledger)) (data music_only),
                      saved := AList.update ''streaks''
                       (AList.update ''last_date'' (StrV ''2024-01-03'')
                          (AList.update ''current'' (IntV 0) music_ledger)) (data music_only)\<rparr>)
   \<and> update_streaks ''2024-01-03'' ''2024-01-02'' stale_streak = Returns stale_streak"
proof -
  have h1: "map_of (data music_only) ''streaks'' = Some music_ledger" by code_simp
  have h2: "map_of music_ledger ''last_date'' \<noteq> Some (StrV ''2024-01-03'')" by code_simp
  have h3: "int_field music_ledger ''current'' = Inr 3" by code_simp
  have h4: "map_of (data music_only) ''2024-01-02'' = Some music_day" by code_simp
  have h5: "all_buckets music_day" by code_simp
  have h6: "(''Coding'', 4) \<in> set (goals (config music_only))"
    by (simp add: music_only_def fresh_tracker_def example_config_def)
  have h7: "''Coding'' \<in> set (productive_categories (config music_only))"
    by (simp add: music_only_def fresh_tracker_def example_config_def)
  have h8: "(0::real) < 4" by simp
  have h9: "map_of music_day ''Coding'' = None" by code_simp
  have k1: "map_of (data stale_streak) ''streaks'' = Some stale_ledger" by code_simp
  have k2: "map_of (data stale_streak) ''2024-01-02'' = None" by code_simp
  note inst = goal_without_data_resets_streak [OF h1 h2 h3 h4 h5 h6 h7 h8 h9,
      of stale_streak stale_ledger "''2024-01-02''" "''2024-01-03''"]
  show ?thesis
    using h1 h2 h3 h4 h5 h6 h7 h8 h9 k1 k2 inst by blast
qed

text \<open>
  The claim as stated fails when yesterday has no record: the guard
  \<open>yesterday in self.data\<close> skips the evaluation, and the streak of 3 stays although
  the \<open>Coding\<close> goal of 4 hours has no data.
\<close>

theorem missing_yesterday_keeps_streak_counterexample:
  "map_of (data stale_streak) ''2024-01-02'' = None
   \<and> goals (config stale_streak) = [(''Coding'', 4), (''Entertainment'', 2)]
   \<and> productive_categories (config stale_streak) = [''Coding'', ''Productivity'', ''Education'']
   \<and> get_field (data stale_streak) ''streaks'' ''last_date'' = Some (StrV ''2023-12-30'')
   \<and> update_streaks ''2024-01-03'' ''2024-01-02'' stale_streak = Returns stale_streak
   \<and> get_field (data (state_of (update_streaks ''2024-01-03'' ''2024-01-02'' stale_streak)))
         ''streaks'' ''current'' = Some (IntV 3)"
  by code_simp

section \<open>The \<open>streaks\<close> key in the reports\<close>

text \<open>
  \<open>export_csv\<close> walks every key of the store. As soon as one entry holds a scalar, as
  the ledger does, the export raises \<open>TypeError\<close>.
\<close>

lemma day_rows_error: "day_rows date day = Inl e \<Longrightarrow> e = TypeError"
  by (induction day) (auto split: field.splits sum.splits)

lemma day_rows_scalar:
  "\<not> all_buckets day \<Longrightarrow> day_rows date day = Inl TypeError"
proof (induction day)
  case Nil
  then show ?case by (simp add: all_buckets_def)
next
  case (Cons p day)
  obtain c f where p: "p = (c, f)" by (cases p)
  show ?case
  proof (cases f)
    case (Bucket b)
    then have "\<not> all_buckets day" using Cons.prems p by (simp add: all_buckets_def is_bucket_def)
    then show ?thesis using Cons.IH p Bucket by simp
  qed (simp_all add: p)
qed

lemma export_rows_scalar:
  assumes "map_of d k = Some day" and "\<not> all_buckets day"
  shows "k \<in> set dates \<Longrightarrow> set dates \<subseteq> fst ` set d \<Longrightarrow> export_rows d dates = Inl TypeError"
proof (induction dates)
  case Nil
  then show ?case by simp
next
  case (Cons date dates)
  from Cons.prems(2) have "date \<in> fst ` set d" by simp
  then obtain day' where day': "map_of d date = Some day'"
    by (metis domD dom_map_of_conv_image_fst)
  show ?case
  proof (cases "date = k")
    case True
    then show ?thesis using assms day_rows_scalar by simp
  next
    case False
    then have "export_rows d dates = Inl TypeError" using Cons by auto
    then show ?thesis using day' day_rows_error [of date day']
      by (auto split: sum.splits)
  qed
qed

lemma export_csv_scalar:
  assumes "map_of d k = Some day" and "\<not> all_buckets day"
  shows "export_csv d = Inl TypeError"
proof -
  have "k \<in> fst ` set d" using assms(1) by (metis domI dom_map_of_conv_image_fst)
  then have "k \<in> set (sort (map fst d))" by simp
  moreover have "set (sort (map fst d)) \<subseteq> fst ` set d" by simp
  ultimately show ?thesis
    unfolding export_csv_def using export_rows_scalar [OF assms] by blast
qed

lemma export_csv_with_new_streaks:
  "map_of d ''streaks'' = Some new_streaks \<Longrightarrow> export_csv d = Inl TypeError"
  by (rule export_csv_scalar [where day = new_streaks])
     (simp_all add: new_streaks_def all_buckets_def is_bucket_def)

text \<open>
  C3. On a store with one tracked day and the ledger that \<open>__init__\<close> installs, the
  sorted keys are the date and \<open>streaks\<close>, and each of \<open>export_csv\<close>,
  \<open>display_insights\<close> and \<open>list_previous_days\<close> takes \<open>streaks\<close> for a date,
  subscripts the ledger's integers and raises \<open>TypeError\<close>. Without the ledger the
  three reports succeed on the same day.
\<close>

theorem streaks_key_treated_as_date:
  "map_of (data day_with_null_projects) ''streaks'' = Some new_streaks
   \<and> sort (map fst (data day_with_null_projects)) = [''2024-01-02'', ''streaks'']
   \<and> export_csv (data day_with_null_projects) = Inl TypeError
   \<and> display_insights (data day_with_null_projects) = Inl TypeError
   \<and> list_previous_days (data day_with_null_projects) 10 = Inl TypeError
   \<and> export_csv day_without_ledger = Inr [(''2024-01-02'', ''Coding'', ''vim'', 7 / 3600)]
   \<and> display_insights day_without_ledger = Inr [(''2024-01-02'', 7 / 3600, 0, 7 / 3600)]
   \<and> list_previous_days day_without_ledger 10 = Inr [(''2024-01-02'', 7 / 3600, [''Coding''])]"
  by code_simp

end
